theory Spec2Isabelle
  imports Main
begin

section \<open>The connection registry of Nexus Learn\<close>

text \<open>
  The repository holds the WebSocket layer twice: in
  \<^verbatim>\<open>nexus_learn_backend/app/main.py\<close> (definitions prefixed \<open>app_\<close> below) and in
  the unified deployment \<^verbatim>\<open>main.py\<close> (prefixed \<open>main_\<close>). The class
  \<^verbatim>\<open>ConnectionManager\<close> has the same \<^verbatim>\<open>__init__\<close> and \<^verbatim>\<open>connect\<close> in both
  files; \<^verbatim>\<open>disconnect\<close> and \<^verbatim>\<open>websocket_endpoint\<close> differ and are embedded once
  for each file.
\<close>

subsection \<open>Data\<close>

text \<open>
  A socket handle is an object compared by identity (\<^verbatim>\<open>list.remove\<close> finds it with
  \<^verbatim>\<open>==\<close>, which for a connection object is identity): the number is the identity.
\<close>

datatype websocket = WebSocket nat

text \<open>The exceptions that the embedded code raises or lets through.\<close>

datatype error =
    WebSocketDisconnect
  | ValueError
  | AttributeError
  | JSONDecodeError
  | RuntimeError

text \<open>
  \<^verbatim>\<open>self.active_connections = {}\<close> maps a client id to a Python list of sockets,
  \<^verbatim>\<open>self.user_connections = {}\<close> maps a user id to one socket.
\<close>

record ConnectionManager =
  active_connections :: "string \<rightharpoonup> websocket list"
  user_connections :: "int \<rightharpoonup> websocket"

definition init :: ConnectionManager where
  "init = \<lparr>active_connections = Map.empty, user_connections = Map.empty\<rparr>"

text \<open>
  The entries of a group, the empty list when the key is missing (a reading aid for the
  statements; the code itself never reads a missing key).
\<close>

definition group_members :: "ConnectionManager \<Rightarrow> string \<Rightarrow> websocket list" where
  "group_members self client_id =
     (case active_connections self client_id of None \<Rightarrow> [] | Some conns \<Rightarrow> conns)"

subsection \<open>Python primitives used by the manager\<close>

text \<open>
  \<^verbatim>\<open>if user_id:\<close> tests the truth value of an optional integer: \<^verbatim>\<open>None\<close> and
  \<^verbatim>\<open>0\<close> are false, every other integer is true.
\<close>

definition truthy :: "int option \<Rightarrow> bool" where
  "truthy user_id = (case user_id of None \<Rightarrow> False | Some n \<Rightarrow> n \<noteq> 0)"

text \<open>
  \<^verbatim>\<open>xs.remove(x)\<close> deletes the first entry equal to \<open>x\<close> and raises
  \<^verbatim>\<open>ValueError\<close> when there is none.
\<close>

definition list_remove :: "'a list \<Rightarrow> 'a \<Rightarrow> error + 'a list" where
  "list_remove xs x = (if x \<in> set xs then Inr (remove1 x xs) else Inl ValueError)"

subsection \<open>\<^verbatim>\<open>ConnectionManager.connect\<close> (the same in both files)\<close>

text \<open>
  \<^verbatim>\<open>await websocket.accept()\<close> belongs to the transport; its outcome is the
  argument \<open>accepted\<close>: \<open>None\<close> when the call returns, \<open>Some e\<close> when it raises \<open>e\<close>,
  which leaves \<^verbatim>\<open>connect\<close> before anything is stored.
\<close>

definition set_user :: "ConnectionManager \<Rightarrow> websocket \<Rightarrow> int option \<Rightarrow> ConnectionManager" where
  "set_user self websocket user_id =
     (case user_id of
        None \<Rightarrow> self
      | Some u \<Rightarrow>
          if truthy user_id
          then self\<lparr>user_connections := (user_connections self)(u \<mapsto> websocket)\<rparr>
          else self)"

definition connect ::
  "ConnectionManager \<Rightarrow> websocket \<Rightarrow> string \<Rightarrow> int option \<Rightarrow> error option
     \<Rightarrow> error + ConnectionManager" where
  "connect self websocket client_id user_id accepted =
     (case accepted of
        Some e \<Rightarrow> Inl e
      | None \<Rightarrow>
          let conns = (case active_connections self client_id of
                         None \<Rightarrow> [] | Some conns \<Rightarrow> conns);
              self1 = self\<lparr>active_connections :=
                        (active_connections self)(client_id \<mapsto> conns @ [websocket])\<rparr>
          in Inr (set_user self1 websocket user_id))"

subsection \<open>\<^verbatim>\<open>ConnectionManager.disconnect\<close>\<close>

text \<open>
  The part shared by both files: after a successful \<^verbatim>\<open>remove\<close> the key is deleted
  when the list has become empty.
\<close>

definition drop_group :: "ConnectionManager \<Rightarrow> string \<Rightarrow> websocket list \<Rightarrow> ConnectionManager" where
  "drop_group self client_id conns =
     (if conns = []
      then self\<lparr>active_connections := (active_connections self)(client_id := None)\<rparr>
      else self\<lparr>active_connections := (active_connections self)(client_id \<mapsto> conns)\<rparr>)"

text \<open>
  \<^verbatim>\<open>if user_id and user_id in self.user_connections: del self.user_connections[user_id]\<close>
\<close>

definition del_user :: "ConnectionManager \<Rightarrow> int option \<Rightarrow> ConnectionManager" where
  "del_user self user_id =
     (case user_id of
        None \<Rightarrow> self
      | Some u \<Rightarrow>
          if truthy user_id \<and> u \<in> dom (user_connections self)
          then self\<lparr>user_connections := (user_connections self)(u := None)\<rparr>
          else self)"

text \<open>
  \<^verbatim>\<open>nexus_learn_backend/app/main.py\<close>: the \<^verbatim>\<open>remove\<close> is unguarded, so its
  \<^verbatim>\<open>ValueError\<close> leaves \<^verbatim>\<open>disconnect\<close> before anything has changed.
\<close>

definition app_disconnect ::
  "ConnectionManager \<Rightarrow> websocket \<Rightarrow> string \<Rightarrow> int option \<Rightarrow> error + ConnectionManager" where
  "app_disconnect self websocket client_id user_id =
     (case active_connections self client_id of
        None \<Rightarrow> Inr (del_user self user_id)
      | Some conns \<Rightarrow>
          (case list_remove conns websocket of
             Inl e \<Rightarrow> Inl e
           | Inr conns' \<Rightarrow> Inr (del_user (drop_group self client_id conns') user_id)))"

text \<open>
  \<^verbatim>\<open>main.py\<close>: the \<^verbatim>\<open>remove\<close> and the deletion of the key stand in
  \<^verbatim>\<open>try: ... except ValueError: pass\<close>.
\<close>

definition main_disconnect ::
  "ConnectionManager \<Rightarrow> websocket \<Rightarrow> string \<Rightarrow> int option \<Rightarrow> error + ConnectionManager" where
  "main_disconnect self websocket client_id user_id =
     (case active_connections self client_id of
        None \<Rightarrow> Inr (del_user self user_id)
      | Some conns \<Rightarrow>
          (case list_remove conns websocket of
             Inl e \<Rightarrow> if e = ValueError then Inr (del_user self user_id) else Inl e
           | Inr conns' \<Rightarrow> Inr (del_user (drop_group self client_id conns') user_id)))"

subsection \<open>Sequences of calls\<close>

text \<open>
  The registry lives as long as the process, and every call comes from its own
  connection task: a call that raises ends that task and leaves the registry as it was
  at the raise (in both methods nothing has been stored by then), and later calls go on.
\<close>

datatype call =
    Connect websocket string "int option" "error option"
  | Disconnect websocket string "int option"

fun app_call :: "ConnectionManager \<Rightarrow> call \<Rightarrow> error + ConnectionManager" where
  "app_call self (Connect ws g u accepted) = connect self ws g u accepted"
| "app_call self (Disconnect ws g u) = app_disconnect self ws g u"

fun main_call :: "ConnectionManager \<Rightarrow> call \<Rightarrow> error + ConnectionManager" where
  "main_call self (Connect ws g u accepted) = connect self ws g u accepted"
| "main_call self (Disconnect ws g u) = main_disconnect self ws g u"

definition keep :: "ConnectionManager \<Rightarrow> error + ConnectionManager \<Rightarrow> ConnectionManager" where
  "keep self r = (case r of Inl e \<Rightarrow> self | Inr self' \<Rightarrow> self')"

fun app_run :: "ConnectionManager \<Rightarrow> call list \<Rightarrow> ConnectionManager" where
  "app_run self [] = self"
| "app_run self (c # cs) = app_run (keep self (app_call self c)) cs"

fun main_run :: "ConnectionManager \<Rightarrow> call list \<Rightarrow> ConnectionManager" where
  "main_run self [] = self"
| "main_run self (c # cs) = main_run (keep self (main_call self c)) cs"

subsection \<open>Messages\<close>

text \<open>
  What \<^verbatim>\<open>receive_json\<close> returns and \<^verbatim>\<open>send_json\<close> takes: decoded JSON. A
  Python dict is the list of its items in order, keys distinct, read by \<open>map_of\<close>.
  Numbers are the integers; fractions play no part in the dispatch.
\<close>

datatype json =
    JNull
  | JBool bool
  | JInt int
  | JStr string
  | JList "json list"
  | JDict "(string \<times> json) list"

text \<open>\<^verbatim>\<open>d.get(key)\<close>: the value, \<^verbatim>\<open>None\<close> for a missing key.\<close>

definition dict_get :: "(string \<times> json) list \<Rightarrow> string \<Rightarrow> json" where
  "dict_get d k = (case map_of d k of None \<Rightarrow> JNull | Some v \<Rightarrow> v)"

definition pong :: "string \<Rightarrow> json" where
  "pong timestamp = JDict [(''type'', JStr ''pong''), (''timestamp'', JStr timestamp)]"

definition echo :: "json \<Rightarrow> json" where
  "echo data = JDict [(''type'', JStr ''echo''), (''data'', data)]"

text \<open>
  The body of the loop between \<^verbatim>\<open>receive_json\<close> and \<^verbatim>\<open>send_json\<close>: the message
  handed to \<^verbatim>\<open>send_json\<close>. \<open>now\<close> is the value of
  \<^verbatim>\<open>datetime.utcnow().isoformat()\<close> at that moment. Only a dict has \<^verbatim>\<open>get\<close>;
  on any other value \<^verbatim>\<open>data.get\<close> raises \<^verbatim>\<open>AttributeError\<close>.
\<close>

fun dispatch :: "string \<Rightarrow> json \<Rightarrow> error + json" where
  "dispatch now (JDict d) =
     Inr (if dict_get d ''type'' = JStr ''ping'' then pong now else echo (JDict d))"
| "dispatch now data = Inl AttributeError"

subsection \<open>The transport, as the loop sees it\<close>

text \<open>
  One round of the loop meets the transport twice: \<^verbatim>\<open>receive_json\<close> returns a
  value or raises (\<^verbatim>\<open>WebSocketDisconnect\<close> when the peer has gone,
  \<^verbatim>\<open>JSONDecodeError\<close> on a frame that is not JSON), and \<^verbatim>\<open>send_json\<close> returns or
  raises. A round records both outcomes and the clock reading; the outcome of the send
  is read only when the round gets that far.
\<close>

datatype received = Received json | ReceiveRaises error

datatype sent = Sent | SendRaises error

record round =
  incoming :: received
  utcnow :: string
  outgoing :: sent

text \<open>
  \<^verbatim>\<open>while True:\<close> over the rounds the transport supplies. The result is the list
  of messages handed to \<^verbatim>\<open>send_json\<close>, in order, and the exception that ended the
  loop; \<open>None\<close> when the rounds are used up, the loop waiting in \<^verbatim>\<open>receive_json\<close>.
\<close>

fun message_loop :: "round list \<Rightarrow> json list \<times> error option" where
  "message_loop [] = ([], None)"
| "message_loop (r # rs) =
     (case incoming r of
        ReceiveRaises e \<Rightarrow> ([], Some e)
      | Received data \<Rightarrow>
          (case dispatch (utcnow r) data of
             Inl e \<Rightarrow> ([], Some e)
           | Inr msg \<Rightarrow>
               (case outgoing r of
                  SendRaises e \<Rightarrow> ([msg], Some e)
                | Sent \<Rightarrow> (msg # fst (message_loop rs), snd (message_loop rs)))))"

subsection \<open>\<^verbatim>\<open>websocket_endpoint\<close>\<close>

text \<open>
  How a run of the endpoint stands: still in the loop, returned (through the handler of
  \<^verbatim>\<open>WebSocketDisconnect\<close>), or left by an exception that nothing caught.
\<close>

datatype outcome = Running | Returned | Raised error

record endpoint =
  manager :: ConnectionManager
  replies :: "json list"
  disconnect_calls :: nat
  outcome :: outcome

text \<open>
  \<^verbatim>\<open>except WebSocketDisconnect:\<close> is the only handler around the loop. The
  endpoint works on the registry it is given; \<open>disconnect_calls\<close> counts its calls of
  \<^verbatim>\<open>manager.disconnect\<close>.
\<close>

definition handle_exit ::
  "(ConnectionManager \<Rightarrow> error + ConnectionManager) \<Rightarrow> ConnectionManager \<Rightarrow>
     json list \<times> error option \<Rightarrow> endpoint" where
  "handle_exit disconnect self1 res =
     (case snd res of
        None \<Rightarrow>
          \<lparr>manager = self1, replies = fst res, disconnect_calls = 0, outcome = Running\<rparr>
      | Some e \<Rightarrow>
          if e = WebSocketDisconnect
          then (case disconnect self1 of
                  Inl e' \<Rightarrow>
                    \<lparr>manager = self1, replies = fst res, disconnect_calls = 1,
                     outcome = Raised e'\<rparr>
                | Inr self2 \<Rightarrow>
                    \<lparr>manager = self2, replies = fst res, disconnect_calls = 1,
                     outcome = Returned\<rparr>)
          else \<lparr>manager = self1, replies = fst res, disconnect_calls = 0,
                outcome = Raised e\<rparr>)"

text \<open>
  \<^verbatim>\<open>nexus_learn_backend/app/main.py\<close>:
  \<^verbatim>\<open>websocket_endpoint(websocket, client_id, user_id = None)\<close>.
\<close>

definition app_websocket_endpoint ::
  "ConnectionManager \<Rightarrow> websocket \<Rightarrow> string \<Rightarrow> int option \<Rightarrow> error option \<Rightarrow> round list
     \<Rightarrow> endpoint" where
  "app_websocket_endpoint self websocket client_id user_id accepted rounds =
     (case connect self websocket client_id user_id accepted of
        Inl e \<Rightarrow> \<lparr>manager = self, replies = [], disconnect_calls = 0, outcome = Raised e\<rparr>
      | Inr self1 \<Rightarrow>
          handle_exit (\<lambda>m. app_disconnect m websocket client_id user_id) self1
            (message_loop rounds))"

text \<open>
  \<^verbatim>\<open>main.py\<close>: \<^verbatim>\<open>websocket_endpoint(websocket, client_id)\<close> passes no user id
  to the manager.
\<close>

definition main_websocket_endpoint ::
  "ConnectionManager \<Rightarrow> websocket \<Rightarrow> string \<Rightarrow> error option \<Rightarrow> round list \<Rightarrow> endpoint" where
  "main_websocket_endpoint self websocket client_id accepted rounds =
     (case connect self websocket client_id None accepted of
        Inl e \<Rightarrow> \<lparr>manager = self, replies = [], disconnect_calls = 0, outcome = Raised e\<rparr>
      | Inr self1 \<Rightarrow>
          handle_exit (\<lambda>m. main_disconnect m websocket client_id None) self1
            (message_loop rounds))"

subsection \<open>The invariant of the group table\<close>


subsection \<open>What the transport lets through\<close>



section \<open>Properties of the operations\<close>

subsection \<open>The two tables are updated independently\<close>

lemma set_user_active [simp]:
  "active_connections (set_user self ws u) = active_connections self"
  by (simp add: set_user_def split: option.splits)

lemma del_user_active [simp]:
  "active_connections (del_user self u) = active_connections self"
  by (simp add: del_user_def split: option.splits)

lemma drop_group_users [simp]:
  "user_connections (drop_group self g conns) = user_connections self"
  by (simp add: drop_group_def)

lemma set_user_users:
  "user_connections (set_user self ws u) =
     (case u of None \<Rightarrow> user_connections self
      | Some n \<Rightarrow> if n = 0 then user_connections self else (user_connections self)(n \<mapsto> ws))"
  by (simp add: set_user_def truthy_def split: option.splits)

lemma del_user_users:
  "user_connections (del_user self u) =
     (case u of None \<Rightarrow> user_connections self
      | Some n \<Rightarrow> if n = 0 then user_connections self else (user_connections self)(n := None))"
  by (auto simp: del_user_def truthy_def split: option.splits)

subsection \<open>What a call returns\<close>

lemma connect_accepted:
  "connect self ws g u None =
     Inr (set_user (self\<lparr>active_connections :=
            (active_connections self)(g \<mapsto> group_members self g @ [ws])\<rparr>) ws u)"
  by (simp add: connect_def group_members_def)


lemma disconnect_member:
  assumes "active_connections self g = Some conns" and "ws \<in> set conns"
  shows "app_disconnect self ws g u = Inr (del_user (drop_group self g (remove1 ws conns)) u)"
    and "main_disconnect self ws g u = Inr (del_user (drop_group self g (remove1 ws conns)) u)"
  using assms by (simp_all add: app_disconnect_def main_disconnect_def list_remove_def)

lemma disconnect_absent:
  assumes "ws \<notin> set (group_members self g)"
  shows "main_disconnect self ws g u = Inr (del_user self u)"
  using assms
  by (simp add: main_disconnect_def list_remove_def group_members_def split: option.splits)

lemma disconnect_no_key:
  assumes "active_connections self g = None"
  shows "app_disconnect self ws g u = Inr (del_user self u)"
  using assms by (simp add: app_disconnect_def)

subsection \<open>No call leaves an empty list behind\<close>











subsection \<open>No socket is listed twice while the transport accepts it once\<close>

lemma group_members_set_user [simp]:
  "group_members (set_user self ws u) g = group_members self g"
  by (simp add: group_members_def)

lemma group_members_del_user [simp]:
  "group_members (del_user self u) g = group_members self g"
  by (simp add: group_members_def)












subsection \<open>Registrations in a row\<close>

lemma run_registrations:
  assumes "u \<noteq> 0"
  shows "user_connections
           (app_run self (map (\<lambda>(ws, g). Connect ws g (Some u) None) (regs @ [(ws, g)]))) u
         = Some ws"
    and "user_connections
           (main_run self (map (\<lambda>(ws, g). Connect ws g (Some u) None) (regs @ [(ws, g)]))) u
         = Some ws"
  using assms
  by (induction regs arbitrary: self)
     (simp_all add: keep_def connect_accepted set_user_users split: prod.splits)

subsection \<open>The loop\<close>

lemma message_loop_append:
  "snd (message_loop before) = None \<Longrightarrow>
     message_loop (before @ rest) =
       (fst (message_loop before) @ fst (message_loop rest), snd (message_loop rest))"
  by (induction before) (auto split: received.splits sum.splits sent.splits)

lemma endpoint_replies:
  "replies (app_websocket_endpoint self ws g u None rounds) = fst (message_loop rounds)"
  "replies (main_websocket_endpoint self ws g None rounds) = fst (message_loop rounds)"
  by (simp_all add: app_websocket_endpoint_def main_websocket_endpoint_def handle_exit_def
      connect_accepted split: option.splits sum.splits)

text \<open>
  The way out that the handler covers: when \<^verbatim>\<open>WebSocketDisconnect\<close> ends the loop,
  \<^verbatim>\<open>manager.disconnect\<close> is called once and the endpoint returns.
\<close>

lemma disconnect_after_connect:
  "\<exists>s1 s2. connect self ws g u None = Inr s1
     \<and> app_disconnect s1 ws g u = Inr s2 \<and> main_disconnect s1 ws g u = Inr s2"
proof -
  obtain s1 where s1: "connect self ws g u None = Inr s1"
    and m1: "active_connections s1 g = Some (group_members self g @ [ws])"
    by (simp add: connect_accepted)
  have "ws \<in> set (group_members self g @ [ws])" by simp
  from disconnect_member [OF m1 this, of u] s1 show ?thesis by blast
qed

lemma disconnect_signal_unregisters_once:
  assumes "snd (message_loop rounds) = Some WebSocketDisconnect"
  shows "disconnect_calls (app_websocket_endpoint self ws g u None rounds) = 1
         \<and> outcome (app_websocket_endpoint self ws g u None rounds) = Returned"
    and "disconnect_calls (main_websocket_endpoint self ws g None rounds) = 1
         \<and> outcome (main_websocket_endpoint self ws g None rounds) = Returned"
proof -
  obtain s1 s2 where "connect self ws g u None = Inr s1" "app_disconnect s1 ws g u = Inr s2"
    using disconnect_after_connect by blast
  then show "disconnect_calls (app_websocket_endpoint self ws g u None rounds) = 1
         \<and> outcome (app_websocket_endpoint self ws g u None rounds) = Returned"
    using assms by (simp add: app_websocket_endpoint_def handle_exit_def)
  obtain t1 t2 where "connect self ws g None None = Inr t1" "main_disconnect t1 ws g None = Inr t2"
    using disconnect_after_connect by blast
  then show "disconnect_calls (main_websocket_endpoint self ws g None rounds) = 1
         \<and> outcome (main_websocket_endpoint self ws g None rounds) = Returned"
    using assms by (simp add: main_websocket_endpoint_def handle_exit_def)
qed

section \<open>The claims of the specification\<close>

subsection \<open>C1: unregistering an earlier connection of a user\<close>

text \<open>
  C1 as the specification has it: with \<open>c1\<close> registered before \<open>c2\<close> under one user,
  \<^verbatim>\<open>disconnect\<close> of \<open>c1\<close> leaves the user's entry pointing at \<open>c2\<close>. Neither file
  compares the stored socket with the one passed in: after the three calls the entry of
  user 7 is gone.
\<close>

theorem disconnect_earlier_counterexample:
  "user_connections
     (app_run init [Connect (WebSocket 1) ''a'' (Some 7) None,
                    Connect (WebSocket 2) ''a'' (Some 7) None,
                    Disconnect (WebSocket 1) ''a'' (Some 7)]) 7 \<noteq> Some (WebSocket 2)
   \<and> user_connections
     (main_run init [Connect (WebSocket 1) ''a'' (Some 7) None,
                     Connect (WebSocket 2) ''a'' (Some 7) None,
                     Disconnect (WebSocket 1) ''a'' (Some 7)]) 7 \<noteq> Some (WebSocket 2)"
  by (simp add: init_def keep_def connect_def set_user_def truthy_def app_disconnect_def
      main_disconnect_def list_remove_def drop_group_def del_user_def)

text \<open>
  C1, amended: for every nonzero user id \<open>u\<close> and every registry, when \<open>c1\<close> and then
  \<open>c2\<close> are registered under \<open>u\<close>, the user's entry is \<open>c2\<close>; \<^verbatim>\<open>disconnect\<close> of \<open>c1\<close>
  with \<open>u\<close> returns normally in both files and deletes the entry of \<open>u\<close>, whichever
  socket it holds.
\<close>

theorem disconnect_earlier_deletes_user_entry:
  assumes "u \<noteq> 0"
  shows "\<exists>s1 s2 s3.
           connect self c1 g1 (Some u) None = Inr s1
         \<and> connect s1 c2 g2 (Some u) None = Inr s2
         \<and> user_connections s2 u = Some c2
         \<and> app_disconnect s2 c1 g1 (Some u) = Inr s3
         \<and> main_disconnect s2 c1 g1 (Some u) = Inr s3
         \<and> user_connections s3 u = None"
proof -
  obtain s1 where s1: "connect self c1 g1 (Some u) None = Inr s1"
    and m1: "active_connections s1 g1 = Some (group_members self g1 @ [c1])"
    by (simp add: connect_accepted)
  obtain s2 where s2: "connect s1 c2 g2 (Some u) None = Inr s2"
    and a2: "active_connections s2 = (active_connections s1)(g2 \<mapsto> group_members s1 g2 @ [c2])"
    and u2: "user_connections s2 u = Some c2"
    using assms by (simp add: connect_accepted set_user_users)
  obtain conns where conns: "active_connections s2 g1 = Some conns" and mem: "c1 \<in> set conns"
    using m1 a2 by (cases "g1 = g2") (simp_all add: group_members_def)
  define s3 where "s3 = del_user (drop_group s2 g1 (remove1 c1 conns)) (Some u)"
  have "app_disconnect s2 c1 g1 (Some u) = Inr s3" "main_disconnect s2 c1 g1 (Some u) = Inr s3"
    using disconnect_member [OF conns mem] by (simp_all add: s3_def)
  moreover have "user_connections s3 u = None"
    using assms by (simp add: s3_def del_user_users)
  ultimately show ?thesis using s1 s2 u2 by blast
qed

theorem disconnect_earlier_deletes_user_entry_witness:
  "(7::int) \<noteq> 0 \<and>
   (\<exists>s1 s2 s3.
       connect init (WebSocket 1) ''a'' (Some 7) None = Inr s1
     \<and> connect s1 (WebSocket 2) ''b'' (Some 7) None = Inr s2
     \<and> user_connections s2 7 = Some (WebSocket 2)
     \<and> app_disconnect s2 (WebSocket 1) ''a'' (Some 7) = Inr s3
     \<and> main_disconnect s2 (WebSocket 1) ''a'' (Some 7) = Inr s3
     \<and> user_connections s3 7 = None)"
  using disconnect_earlier_deletes_user_entry
          [of 7 init "WebSocket 1" "''a''" "WebSocket 2" "''b''"]
  by simp

subsection \<open>C2: registering one connection twice\<close>



subsection \<open>C3: unregistering a connection that is not listed\<close>

text \<open>
  C3 as the specification has it: \<^verbatim>\<open>disconnect\<close> of a socket that is not in the list
  of its group changes nothing. In \<^verbatim>\<open>main.py\<close>, a second \<^verbatim>\<open>disconnect\<close> of socket 1
  for user 7, after socket 2 has been registered for the same user, finds socket 1 in no
  list and still deletes the entry of user 7, which by then is socket 2.
\<close>

theorem disconnect_absent_counterexample:
  "WebSocket 1 \<notin> set (group_members
       (main_run init [Connect (WebSocket 1) ''a'' (Some 7) None,
                       Disconnect (WebSocket 1) ''a'' (Some 7),
                       Connect (WebSocket 2) ''b'' (Some 7) None]) ''a'')
   \<and> user_connections
       (main_run init [Connect (WebSocket 1) ''a'' (Some 7) None,
                       Disconnect (WebSocket 1) ''a'' (Some 7),
                       Connect (WebSocket 2) ''b'' (Some 7) None]) 7 = Some (WebSocket 2)
   \<and> user_connections
       (main_run init [Connect (WebSocket 1) ''a'' (Some 7) None,
                       Disconnect (WebSocket 1) ''a'' (Some 7),
                       Connect (WebSocket 2) ''b'' (Some 7) None,
                       Disconnect (WebSocket 1) ''a'' (Some 7)]) 7 = None"
  by (simp add: init_def keep_def connect_def set_user_def truthy_def
      main_disconnect_def list_remove_def drop_group_def del_user_def group_members_def)

text \<open>
  C3, amended: in \<^verbatim>\<open>main.py\<close>, \<^verbatim>\<open>disconnect\<close> of a socket that is not in the list of
  its group returns normally and leaves the group table as it was; the user table is as
  it was too, except that a nonzero user id passed in no longer has an entry. In
  \<^verbatim>\<open>nexus_learn_backend/app/main.py\<close> the same holds when the group has no key.
\<close>

theorem disconnect_absent_keeps_groups:
  assumes "ws \<notin> set (group_members self g)"
  shows "(\<exists>self'. main_disconnect self ws g u = Inr self'
            \<and> active_connections self' = active_connections self
            \<and> user_connections self' =
                (case u of None \<Rightarrow> user_connections self
                 | Some n \<Rightarrow> if n = 0 then user_connections self
                             else (user_connections self)(n := None)))
       \<and> (active_connections self g = None
            \<longrightarrow> app_disconnect self ws g u = main_disconnect self ws g u)"
  using disconnect_absent [OF assms, of u]
  by (auto simp: del_user_users disconnect_no_key)

theorem disconnect_absent_keeps_groups_witness:
  "WebSocket 1 \<notin> set (group_members
       \<lparr>active_connections = Map.empty, user_connections = [7 \<mapsto> WebSocket 2]\<rparr> ''a'')
   \<and> active_connections
       \<lparr>active_connections = Map.empty, user_connections = [7 \<mapsto> WebSocket 2]\<rparr> ''a'' = None
   \<and> main_disconnect
       \<lparr>active_connections = Map.empty, user_connections = [7 \<mapsto> WebSocket 2]\<rparr>
       (WebSocket 1) ''a'' (Some 7)
     = Inr \<lparr>active_connections = Map.empty, user_connections = Map.empty\<rparr>
   \<and> app_disconnect
       \<lparr>active_connections = Map.empty, user_connections = [7 \<mapsto> WebSocket 2]\<rparr>
       (WebSocket 1) ''a'' (Some 7)
     = Inr \<lparr>active_connections = Map.empty, user_connections = Map.empty\<rparr>"
  using disconnect_absent_keeps_groups
          [of "WebSocket 1"
              "\<lparr>active_connections = Map.empty, user_connections = [7 \<mapsto> WebSocket 2]\<rparr>"
              "''a''" "Some 7"]
  by (auto simp: group_members_def)

subsection \<open>C4: no group is left empty\<close>



subsection \<open>C5: the last registration of a user wins\<close>

text \<open>
  C5 as the specification has it: for every user id that is passed, \<^verbatim>\<open>connect\<close> stores
  the socket under it. The test is \<^verbatim>\<open>if user_id:\<close>, and the user id 0 is false:
  nothing is stored for it.
\<close>

theorem connect_user_zero_counterexample:
  "user_connections (keep init (connect init (WebSocket 1) ''g'' (Some 0) None)) 0
     \<noteq> Some (WebSocket 1)"
  by (simp add: keep_def connect_def init_def set_user_def truthy_def)

text \<open>
  C5, amended: for every user id \<open>u\<close> other than 0, a \<^verbatim>\<open>connect\<close> whose
  \<^verbatim>\<open>accept\<close> returns stores the new socket under \<open>u\<close>, over whatever was there and
  with every other entry kept; so after any number of registrations under \<open>u\<close>, in
  either file, the entry of \<open>u\<close> is the socket registered last.
\<close>

theorem connect_last_registered_wins:
  assumes "u \<noteq> 0"
  shows "(\<exists>self'. connect self ws g (Some u) None = Inr self'
            \<and> user_connections self' = (user_connections self)(u \<mapsto> ws))
       \<and> user_connections
           (app_run self (map (\<lambda>(ws, g). Connect ws g (Some u) None) (regs @ [(ws, g)]))) u
         = Some ws
       \<and> user_connections
           (main_run self (map (\<lambda>(ws, g). Connect ws g (Some u) None) (regs @ [(ws, g)]))) u
         = Some ws"
  using assms run_registrations [OF assms]
  by (simp add: connect_accepted set_user_users)

theorem connect_last_registered_wins_witness:
  "(7::int) \<noteq> 0
   \<and> user_connections
       (app_run init [Connect (WebSocket 1) ''a'' (Some 7) None,
                      Connect (WebSocket 2) ''b'' (Some 7) None,
                      Connect (WebSocket 3) ''a'' (Some 7) None]) 7
     = Some (WebSocket 3)"
  using connect_last_registered_wins
          [of 7 init "WebSocket 3" "''a''" "[(WebSocket 1, ''a''), (WebSocket 2, ''b'')]"]
  by simp

subsection \<open>C6: leaving the loop\<close>

text \<open>
  C6 says that every way out of the loop of \<^verbatim>\<open>websocket_endpoint\<close>, a decode failure
  in \<^verbatim>\<open>receive_json\<close> among them, calls \<^verbatim>\<open>manager.disconnect\<close> exactly once. The
  code at a first frame that is not JSON, in both files: the \<^verbatim>\<open>JSONDecodeError\<close>
  passes the only handler, \<^verbatim>\<open>manager.disconnect\<close> is not called, and the socket stays
  in its group.
\<close>

theorem decode_failure_leaves_connection_registered:
  "outcome (app_websocket_endpoint init (WebSocket 1) ''a'' None None
      [\<lparr>incoming = ReceiveRaises JSONDecodeError, utcnow = ''2024-01-01T00:00:00'',
        outgoing = Sent\<rparr>]) = Raised JSONDecodeError
   \<and> disconnect_calls (app_websocket_endpoint init (WebSocket 1) ''a'' None None
      [\<lparr>incoming = ReceiveRaises JSONDecodeError, utcnow = ''2024-01-01T00:00:00'',
        outgoing = Sent\<rparr>]) = 0
   \<and> group_members (manager (app_websocket_endpoint init (WebSocket 1) ''a'' None None
      [\<lparr>incoming = ReceiveRaises JSONDecodeError, utcnow = ''2024-01-01T00:00:00'',
        outgoing = Sent\<rparr>])) ''a'' = [WebSocket 1]
   \<and> outcome (main_websocket_endpoint init (WebSocket 1) ''a'' None
      [\<lparr>incoming = ReceiveRaises JSONDecodeError, utcnow = ''2024-01-01T00:00:00'',
        outgoing = Sent\<rparr>]) = Raised JSONDecodeError
   \<and> disconnect_calls (main_websocket_endpoint init (WebSocket 1) ''a'' None
      [\<lparr>incoming = ReceiveRaises JSONDecodeError, utcnow = ''2024-01-01T00:00:00'',
        outgoing = Sent\<rparr>]) = 0
   \<and> group_members (manager (main_websocket_endpoint init (WebSocket 1) ''a'' None
      [\<lparr>incoming = ReceiveRaises JSONDecodeError, utcnow = ''2024-01-01T00:00:00'',
        outgoing = Sent\<rparr>])) ''a'' = [WebSocket 1]"
  by (simp add: app_websocket_endpoint_def main_websocket_endpoint_def handle_exit_def
      connect_def set_user_def init_def group_members_def)

subsection \<open>C7: ping\<close>

text \<open>
  C7: whenever the loop, still running after the rounds \<open>before\<close>, receives a dict
  whose \<^verbatim>\<open>"type"\<close> is \<^verbatim>\<open>"ping"\<close>, the next message it hands to \<^verbatim>\<open>send_json\<close> of
  the same socket is the dict of \<^verbatim>\<open>"type": "pong"\<close> and \<^verbatim>\<open>"timestamp"\<close>, the
  timestamp being the value of \<^verbatim>\<open>datetime.utcnow().isoformat()\<close> in that round. This
  holds in both files.
\<close>

theorem ping_gets_pong:
  assumes "snd (message_loop before) = None"
    and "incoming r = Received (JDict d)"
    and "dict_get d ''type'' = JStr ''ping''"
  shows "\<exists>later.
           replies (app_websocket_endpoint self ws g u None (before @ r # rest))
             = fst (message_loop before)
               @ JDict [(''type'', JStr ''pong''), (''timestamp'', JStr (utcnow r))] # later
         \<and> replies (main_websocket_endpoint self ws g None (before @ r # rest))
             = fst (message_loop before)
               @ JDict [(''type'', JStr ''pong''), (''timestamp'', JStr (utcnow r))] # later"
  using assms
  by (cases "outgoing r") (simp_all add: endpoint_replies message_loop_append pong_def)

theorem ping_gets_pong_witness:
  "snd (message_loop
      [\<lparr>incoming = Received (JDict [(''type'', JStr ''hello'')]),
        utcnow = ''2024-01-01T00:00:00'', outgoing = Sent\<rparr>]) = None
   \<and> dict_get [(''id'', JInt 5), (''type'', JStr ''ping'')] ''type'' = JStr ''ping''
   \<and> (\<exists>later.
         replies (app_websocket_endpoint init (WebSocket 1) ''a'' (Some 7) None
           ([\<lparr>incoming = Received (JDict [(''type'', JStr ''hello'')]),
              utcnow = ''2024-01-01T00:00:00'', outgoing = Sent\<rparr>]
            @ \<lparr>incoming = Received (JDict [(''id'', JInt 5), (''type'', JStr ''ping'')]),
               utcnow = ''2024-01-01T00:00:01.500000'', outgoing = Sent\<rparr> # []))
         = [JDict [(''type'', JStr ''echo''), (''data'', JDict [(''type'', JStr ''hello'')])]]
           @ JDict [(''type'', JStr ''pong''),
                    (''timestamp'', JStr ''2024-01-01T00:00:01.500000'')] # later)"
proof -
  have running:
    "snd (message_loop
       [\<lparr>incoming = Received (JDict [(''type'', JStr ''hello'')]),
         utcnow = ''2024-01-01T00:00:00'', outgoing = Sent\<rparr>]) = None"
    by (simp add: dict_get_def echo_def)
  have ping: "dict_get [(''id'', JInt 5), (''type'', JStr ''ping'')] ''type'' = JStr ''ping''"
    by (simp add: dict_get_def)
  have out:
    "fst (message_loop
       [\<lparr>incoming = Received (JDict [(''type'', JStr ''hello'')]),
         utcnow = ''2024-01-01T00:00:00'', outgoing = Sent\<rparr>])
     = [JDict [(''type'', JStr ''echo''), (''data'', JDict [(''type'', JStr ''hello'')])]]"
    by (simp add: dict_get_def echo_def)
  show ?thesis
    using running ping
      ping_gets_pong [OF running _ ping,
        of "\<lparr>incoming = Received (JDict [(''id'', JInt 5), (''type'', JStr ''ping'')]),
              utcnow = ''2024-01-01T00:00:01.500000'', outgoing = Sent\<rparr>"
           init "WebSocket 1" "''a''" "Some 7" "[]"]
    unfolding out by auto
qed

subsection \<open>C8: everything else is echoed\<close>

text \<open>
  C8: whenever the loop, still running after the rounds \<open>before\<close>, receives a dict
  whose \<^verbatim>\<open>"type"\<close> is not \<^verbatim>\<open>"ping"\<close> or is missing, the next message it hands to
  \<^verbatim>\<open>send_json\<close> is the dict of \<^verbatim>\<open>"type": "echo"\<close> and \<^verbatim>\<open>"data"\<close>, the data being the
  received dict unchanged. This holds in both files.
\<close>

theorem other_gets_echo:
  assumes "snd (message_loop before) = None"
    and "incoming r = Received (JDict d)"
    and "dict_get d ''type'' \<noteq> JStr ''ping''"
  shows "\<exists>later.
           replies (app_websocket_endpoint self ws g u None (before @ r # rest))
             = fst (message_loop before)
               @ JDict [(''type'', JStr ''echo''), (''data'', JDict d)] # later
         \<and> replies (main_websocket_endpoint self ws g None (before @ r # rest))
             = fst (message_loop before)
               @ JDict [(''type'', JStr ''echo''), (''data'', JDict d)] # later"
  using assms
  by (cases "outgoing r") (simp_all add: endpoint_replies message_loop_append echo_def)

theorem other_gets_echo_witness:
  "snd (message_loop []) = None
   \<and> dict_get [(''type'', JStr ''foo''), (''x'', JInt 1)] ''type'' \<noteq> JStr ''ping''
   \<and> (\<exists>later.
         replies (main_websocket_endpoint init (WebSocket 1) ''a'' None
           ([] @ \<lparr>incoming = Received (JDict [(''type'', JStr ''foo''), (''x'', JInt 1)]),
                  utcnow = ''2024-01-01T00:00:00'', outgoing = Sent\<rparr> # []))
         = fst (message_loop [])
           @ JDict [(''type'', JStr ''echo''),
                    (''data'', JDict [(''type'', JStr ''foo''), (''x'', JInt 1)])] # later)"
proof -
  have running: "snd (message_loop []) = None"
    by simp
  have other: "dict_get [(''type'', JStr ''foo''), (''x'', JInt 1)] ''type'' \<noteq> JStr ''ping''"
    by (simp add: dict_get_def)
  show ?thesis
    using running other
      other_gets_echo [OF running _ other,
        of "\<lparr>incoming = Received (JDict [(''type'', JStr ''foo''), (''x'', JInt 1)]),
              utcnow = ''2024-01-01T00:00:00'', outgoing = Sent\<rparr>"
           init "WebSocket 1" "''a''" None "[]"]
    by auto
qed

subsection \<open>C10: the user id 0\<close>

text \<open>
  C10: with the user id 0, \<^verbatim>\<open>connect\<close> and both versions of \<^verbatim>\<open>disconnect\<close> do what
  they do with no user id at all, and leave \<^verbatim>\<open>user_connections\<close> as it was, whether
  they return or raise.
\<close>

theorem user_id_zero_as_absent:
  "connect self ws g (Some 0) accepted = connect self ws g None accepted
   \<and> app_disconnect self ws g (Some 0) = app_disconnect self ws g None
   \<and> main_disconnect self ws g (Some 0) = main_disconnect self ws g None
   \<and> user_connections (keep self (connect self ws g (Some 0) accepted)) = user_connections self
   \<and> user_connections (keep self (app_disconnect self ws g (Some 0))) = user_connections self
   \<and> user_connections (keep self (main_disconnect self ws g (Some 0))) = user_connections self"
proof -
  have s: "set_user m ws (Some 0) = m" and d: "del_user m (Some 0) = m" for m
    by (simp_all add: set_user_def del_user_def truthy_def)
  have s': "set_user m ws None = m" and d': "del_user m None = m" for m
    by (simp_all add: set_user_def del_user_def)
  have c: "connect self ws g (Some 0) accepted = connect self ws g None accepted"
    by (simp add: connect_def s s' Let_def split: option.splits)
  have a: "app_disconnect self ws g (Some 0) = app_disconnect self ws g None"
    by (simp add: app_disconnect_def d d' split: option.splits sum.splits)
  have m: "main_disconnect self ws g (Some 0) = main_disconnect self ws g None"
    by (simp add: main_disconnect_def d d' split: option.splits sum.splits)
  have uc: "user_connections (keep self (connect self ws g None accepted)) = user_connections self"
    by (simp add: keep_def connect_def s' Let_def split: option.splits)
  have ua: "user_connections (keep self (app_disconnect self ws g None)) = user_connections self"
    by (simp add: keep_def app_disconnect_def d' split: option.splits sum.splits)
  have um: "user_connections (keep self (main_disconnect self ws g None)) = user_connections self"
    by (simp add: keep_def main_disconnect_def d' split: option.splits sum.splits)
  show ?thesis using c a m uc ua um by simp
qed

end
